theory Spec2Isabelle
  imports Complex_Main
begin

section \<open>Numbers, vectors and errors\<close>

text \<open>
  The C++ type \<open>float\<close> is modelled by the real numbers: every operation is the exact
  one, so rounding, infinities and NaN are outside the model, and a quotient whose
  divisor is zero is outside it as well. \<open>unsigned int\<close> and \<open>size_t\<close> values are
  natural numbers and \<open>int\<close> values are integers: the counters of the loops below stay
  far from the ends of the machine types, and the numbers of images in
  \<open>VoronoiBuffer::compute\<close> are taken to fit an \<open>int\<close>.
\<close>

type_synonym float = real

text \<open>\<open>vec3<float>\<close> and \<open>quat<float>\<close>: the fields \<open>x, y, z\<close> and \<open>s, v\<close>.\<close>

datatype vec3 = Vec3 (vx: float) (vy: float) (vz: float)

datatype quat = Quat (qs: float) (qv: vec3)

text \<open>The two exceptions the sources throw, each with its message.\<close>

datatype exn = invalid_argument string | runtime_error string

section \<open>AABBQuery.h\<close>

text \<open>
  \<open>AABBQuery::query(point, k)\<close>, lines 57-60: the body is a single \<open>throw\<close>. The
  object and the iterator are type parameters, since no field of either is read.
\<close>

definition query :: "'aabb \<Rightarrow> vec3 \<Rightarrow> nat \<Rightarrow> exn + 'iter" where
  "query this point k =
     Inl (runtime_error ''AABBQuery k-nearest-neighbor queries must use the function signature that provides rmax and scale guesses.'')"

section \<open>CubaticOrderParameter.cc: the rank-4 tensor\<close>

text \<open>
  \<open>tensor4\<close> holds \<open>float data[81]\<close>; it is a list, of length 81 wherever the code
  builds one. The loops over \<open>i < 81\<close> are maps over \<open>[0..<81]\<close>.
\<close>

type_synonym tensor4 = "float list"

definition tensor4_zero :: tensor4 where
  "tensor4_zero = replicate 81 0"

text \<open>
  \<open>tensor4::tensor4(vec3<float>)\<close>, lines 29-50: four nested loops that write
  \<open>data[cnt]\<close> and advance \<open>cnt\<close>.
\<close>

definition tensor4_vec :: "vec3 \<Rightarrow> tensor4" where
  "tensor4_vec vector =
     (let v = [vx vector, vy vector, vz vector] in
      fst (fold (\<lambda>i. fold (\<lambda>j. fold (\<lambda>k. fold (\<lambda>l (data, cnt).
                 (data[cnt := v ! i * v ! j * v ! k * v ! l], cnt + 1))
               [0..<3]) [0..<3]) [0..<3]) [0..<3]
             (replicate 81 0, 0::nat)))"

text \<open>\<open>operator+=\<close>, \<open>operator-\<close>, \<open>operator-=\<close>, \<open>operator*=\<close> and \<open>dot\<close>, lines 58-127.\<close>

definition tensor4_add :: "tensor4 \<Rightarrow> tensor4 \<Rightarrow> tensor4" where
  "tensor4_add a b = map (\<lambda>i. a ! i + b ! i) [0..<81]"

definition tensor4_minus :: "tensor4 \<Rightarrow> tensor4 \<Rightarrow> tensor4" where
  "tensor4_minus a b = map (\<lambda>i. a ! i - b ! i) [0..<81]"

definition tensor4_scale :: "tensor4 \<Rightarrow> float \<Rightarrow> tensor4" where
  "tensor4_scale a b = map (\<lambda>i. a ! i * b) [0..<81]"

definition dot :: "tensor4 \<Rightarrow> tensor4 \<Rightarrow> float" where
  "dot a b = fold (\<lambda>i c. c + a ! i * b ! i) [0..<81] 0"

text \<open>
  \<open>genR4Tensor\<close>, lines 130-156. The \<open>ManagedArray<float> identity({3, 3})\<close> starts as
  zeros and gets ones on its diagonal.
\<close>

definition identity :: "nat \<Rightarrow> nat \<Rightarrow> float" where
  "identity i j = (if i = j then 1 else 0)"

definition genR4Tensor :: tensor4 where
  "genR4Tensor =
     fst (fold (\<lambda>i. fold (\<lambda>j. fold (\<lambda>k. fold (\<lambda>l (r4, cnt).
                (let r4 = r4[cnt := r4 ! cnt + identity i j * identity k l];
                     r4 = r4[cnt := r4 ! cnt + identity i k * identity j l];
                     r4 = r4[cnt := r4 ! cnt + identity i l * identity j k];
                     r4 = r4[cnt := r4 ! cnt * (2 / 5)]
                 in (r4, cnt + 1)))
              [0..<3]) [0..<3]) [0..<3]) [0..<3]
            (tensor4_zero, 0::nat))"

section \<open>CubaticOrderParameter.cc: the object\<close>

text \<open>
  The members of \<open>CubaticOrderParameter\<close>. The constructor leaves
  \<open>m_cubatic_orientation\<close> and \<open>m_cubatic_order_parameter\<close> without a value;
  \<open>compute\<close> gives them one, so they are optional here.
\<close>

record cubatic =
  m_t_initial :: float
  m_t_final :: float
  m_scale :: float
  m_n :: nat
  m_replicates :: nat
  m_seed :: nat
  m_global_tensor :: tensor4
  m_cubatic_tensor :: tensor4
  m_gen_r4_tensor :: tensor4
  m_cubatic_orientation :: "quat option"
  m_cubatic_order_parameter :: "float option"
  m_particle_tensor :: "float list"
  m_particle_order_parameter :: "float list"
  m_system_vectors :: "vec3 list"

text \<open>
  The constructor, lines 159-193: three checks, each throwing \<open>std::invalid_argument\<close>,
  then the initialisation. With \<open>m_n = 0\<close> the two per-particle arrays are empty. The
  buffers \<open>m_sp_global_tensor\<close> and \<open>m_sp_cubatic_tensor\<close>, which no function of the file
  reads, are left out.
\<close>

definition CubaticOrderParameter ::
    "float \<Rightarrow> float \<Rightarrow> float \<Rightarrow> nat \<Rightarrow> nat \<Rightarrow> exn + cubatic" where
  "CubaticOrderParameter t_initial t_final scale replicates seed =
     (if t_initial < t_final then
        Inl (invalid_argument ''CubaticOrderParameter requires that t_initial must be greater than t_final.'')
      else if t_final < 1 / 1000000 then
        Inl (invalid_argument ''CubaticOrderParameter requires that t_final must be >= 1e-6.'')
      else if scale > 1 \<or> scale < 0 then
        Inl (invalid_argument ''CubaticOrderParameter requires that scale must be between 0 and 1.'')
      else
        Inr \<lparr> m_t_initial = t_initial, m_t_final = t_final, m_scale = scale, m_n = 0,
              m_replicates = replicates, m_seed = seed,
              m_global_tensor = tensor4_zero, m_cubatic_tensor = tensor4_zero,
              m_gen_r4_tensor = genR4Tensor,
              m_cubatic_orientation = None, m_cubatic_order_parameter = None,
              m_particle_tensor = [], m_particle_order_parameter = [],
              m_system_vectors = [Vec3 1 0 0, Vec3 0 1 0, Vec3 0 0 1] \<rparr>)"

text \<open>
  What the file uses from headers that are not part of the sources at hand, taken as
  parameters: \<open>rotate\<close>, the quaternion product, \<open>quat::fromAxisAngle\<close>, the \<open>vec3\<close>
  dot product and division by a scalar (VectorMath.h); the constructor of the
  generator \<open>Saru\<close> and its method \<open>s<float>(a, b)\<close>, which returns a number and leaves
  the generator in its next state; and \<open>Index2D(w, h)(i, j)\<close> (Index1D.h).
\<close>

record 'g externals =
  rotate_vec :: "quat \<Rightarrow> vec3 \<Rightarrow> vec3"
  quat_mul :: "quat \<Rightarrow> quat \<Rightarrow> quat"
  fromAxisAngle :: "vec3 \<Rightarrow> float \<Rightarrow> quat"
  vec3_dot :: "vec3 \<Rightarrow> vec3 \<Rightarrow> float"
  vec3_div :: "vec3 \<Rightarrow> float \<Rightarrow> vec3"
  Saru :: "nat \<Rightarrow> nat \<Rightarrow> nat \<Rightarrow> 'g"
  saru_s :: "'g \<Rightarrow> float \<Rightarrow> float \<Rightarrow> float \<times> 'g"
  Index2D :: "nat \<Rightarrow> nat \<Rightarrow> nat \<Rightarrow> nat \<Rightarrow> nat"

text \<open>\<open>calcCubaticTensor\<close>, lines 195-211; the result is what is copied out.\<close>

definition calcCubaticTensor :: "'g externals \<Rightarrow> cubatic \<Rightarrow> quat \<Rightarrow> tensor4" where
  "calcCubaticTensor ext this orientation =
     (let calculated_tensor =
            fold (\<lambda>i t. tensor4_add t
                           (tensor4_vec (rotate_vec ext orientation (m_system_vectors this ! i))))
              [0..<3] tensor4_zero;
          calculated_tensor = tensor4_scale calculated_tensor 2;
          calculated_tensor = tensor4_minus calculated_tensor (m_gen_r4_tensor this)
      in calculated_tensor)"

text \<open>\<open>calcCubaticOrderParameter\<close>, lines 213-219.\<close>

definition calcCubaticOrderParameter :: "cubatic \<Rightarrow> tensor4 \<Rightarrow> float" where
  "calcCubaticOrderParameter this cubatic_tensor =
     (let l_cubatic_tensor = cubatic_tensor;
          diff = tensor4_minus (m_global_tensor this) l_cubatic_tensor
      in 1 - dot diff diff / dot l_cubatic_tensor l_cubatic_tensor)"

text \<open>\<open>calcRandomQuaternion\<close>, lines 221-230: three draws, in this order.\<close>

definition calcRandomQuaternion :: "'g externals \<Rightarrow> 'g \<Rightarrow> float \<Rightarrow> quat \<times> 'g" where
  "calcRandomQuaternion ext saru angle_multiplier =
     (let (theta, saru) = saru_s ext saru 0 (2 * pi);
          (u, saru) = saru_s ext saru 0 1;
          phi = arccos (2 * u - 1);
          axis = Vec3 (cos theta * sin phi) (sin theta * sin phi) (cos phi);
          axis_norm = sqrt (vec3_dot ext axis axis);
          axis = vec3_div ext axis axis_norm;
          (w, saru) = saru_s ext saru 0 1;
          angle = angle_multiplier * w
      in (fromAxisAngle ext axis angle, saru))"

text \<open>\<open>calculatePerParticleTensor\<close> and \<open>calculateGlobalTensor\<close>, lines 232-287.\<close>

definition calculatePerParticleTensor :: "'g externals \<Rightarrow> cubatic \<Rightarrow> quat list \<Rightarrow> cubatic" where
  "calculatePerParticleTensor ext this orientations =
     this\<lparr> m_particle_tensor :=
       fold (\<lambda>i particle_tensor.
               (let l_mbar = fold (\<lambda>j t. tensor4_add t
                                 (tensor4_vec (rotate_vec ext (orientations ! i)
                                                 (m_system_vectors this ! j))))
                               [0..<3] tensor4_zero;
                    l_mbar = tensor4_scale l_mbar 2
                in fold (\<lambda>j pt. pt[Index2D ext (m_n this) 81 i j := l_mbar ! j])
                     [0..<81] particle_tensor))
         [0..<m_n this] (m_particle_tensor this) \<rparr>"

definition calculateGlobalTensor :: "'g externals \<Rightarrow> cubatic \<Rightarrow> cubatic" where
  "calculateGlobalTensor ext this =
     (let n_inv = 1 / real (m_n this);
          global = map (\<lambda>i. fold (\<lambda>j tensor_value.
                                    tensor_value
                                      + m_particle_tensor this ! Index2D ext (m_n this) 81 j i)
                                [0..<m_n this] 0 * n_inv)
                     [0..<81]
      in this\<lparr> m_global_tensor := tensor4_minus global (m_gen_r4_tensor this) \<rparr>)"

section \<open>CubaticOrderParameter.cc: simulated annealing\<close>

text \<open>The local variables of one replicate, lines 331-343, with the generator.\<close>

record 'g anneal =
  cubatic_tensor :: tensor4
  new_cubatic_tensor :: tensor4
  cubatic_orientation :: quat
  current_orientation :: quat
  cubatic_order_parameter :: float
  new_order_parameter :: float
  t_current :: float
  loop_count :: nat
  l_saru :: 'g

text \<open>
  One pass through the body of the \<open>while\<close> loop, lines 347-376. The last branch is the
  \<open>continue\<close>: it skips the cooling at line 376.
\<close>

definition anneal_step :: "'g externals \<Rightarrow> cubatic \<Rightarrow> 'g anneal \<Rightarrow> 'g anneal" where
  "anneal_step ext this a =
     (let a = a\<lparr> loop_count := loop_count a + 1 \<rparr>;
          (dq, saru) = calcRandomQuaternion ext (l_saru a) (1 / 10);
          a = a\<lparr> l_saru := saru, current_orientation := quat_mul ext dq (cubatic_orientation a) \<rparr>;
          a = a\<lparr> new_cubatic_tensor := calcCubaticTensor ext this (current_orientation a) \<rparr>;
          a = a\<lparr> new_order_parameter := calcCubaticOrderParameter this (new_cubatic_tensor a) \<rparr>
      in if new_order_parameter a > cubatic_order_parameter a then
           a\<lparr> cubatic_tensor := new_cubatic_tensor a,
              cubatic_order_parameter := new_order_parameter a,
              cubatic_orientation := current_orientation a,
              t_current := t_current a * m_scale this \<rparr>
         else
           (let boltzmann_factor =
                  exp (- (cubatic_order_parameter a - new_order_parameter a) / t_current a);
                (test_value, saru) = saru_s ext (l_saru a) 0 1;
                a = a\<lparr> l_saru := saru \<rparr>
            in if boltzmann_factor \<ge> test_value then
                 a\<lparr> cubatic_tensor := new_cubatic_tensor a,
                    cubatic_order_parameter := new_order_parameter a,
                    cubatic_orientation := current_orientation a,
                    t_current := t_current a * m_scale this \<rparr>
               else a))"

text \<open>The \<open>while\<close> loop, line 345.\<close>

function anneal_loop :: "'g externals \<Rightarrow> cubatic \<Rightarrow> 'g anneal \<Rightarrow> 'g anneal" where
  "anneal_loop ext this a =
     (if t_current a > m_t_final this \<and> loop_count a < 10000
      then anneal_loop ext this (anneal_step ext this a)
      else a)"
  by pat_completeness auto
termination
  by (relation "measure (\<lambda>(ext, this, a). 10000 - loop_count a)")
     (auto simp: anneal_step_def Let_def split: prod.splits)

declare anneal_loop.simps [simp del]

text \<open>
  One replicate, lines 331-377: the first random orientation and the variables as
  they stand before the loop, then the loop.
\<close>

definition initial_anneal :: "'g externals \<Rightarrow> cubatic \<Rightarrow> 'g \<Rightarrow> 'g anneal" where
  "initial_anneal ext this saru =
     (let (q, saru) = calcRandomQuaternion ext saru 1;
          tensor = calcCubaticTensor ext this q;
          order_parameter = calcCubaticOrderParameter this tensor
      in \<lparr> cubatic_tensor = tensor, new_cubatic_tensor = tensor4_zero,
           cubatic_orientation = q, current_orientation = q,
           cubatic_order_parameter = order_parameter,
           new_order_parameter = order_parameter,
           t_current = m_t_initial this, loop_count = 0, l_saru = saru \<rparr>)"

definition replicate_body :: "'g externals \<Rightarrow> cubatic \<Rightarrow> 'g \<Rightarrow> 'g anneal" where
  "replicate_body ext this saru = anneal_loop ext this (initial_anneal ext this saru)"

text \<open>
  The three arrays shared by the replicates, lines 311-319, and the writes of one
  replicate into them, lines 379-383. \<open>memcpy\<close> of 81 numbers to an offset is
  \<open>memcpy81\<close>.
\<close>

record replicate_arrays =
  p_cubatic_tensor :: "float list"
  p_cubatic_orientation :: "quat list"
  p_cubatic_order_parameter :: "float list"

definition memcpy81 :: "float list \<Rightarrow> nat \<Rightarrow> float list \<Rightarrow> float list" where
  "memcpy81 dst offset src = fold (\<lambda>j d. d[offset + j := src ! j]) [0..<81] dst"

definition set_values ::
    "'g externals \<Rightarrow> cubatic \<Rightarrow> nat \<Rightarrow> 'g anneal \<Rightarrow> replicate_arrays \<Rightarrow> replicate_arrays" where
  "set_values ext this i a arr =
     arr\<lparr> p_cubatic_tensor :=
            memcpy81 (p_cubatic_tensor arr) (Index2D ext (m_replicates this) 81 i 0)
              (cubatic_tensor a),
          p_cubatic_orientation := (p_cubatic_orientation arr)[i := cubatic_orientation a],
          p_cubatic_order_parameter :=
            (p_cubatic_order_parameter arr)[i := cubatic_order_parameter a] \<rparr>"

text \<open>
  The body that \<open>parallel_for\<close> runs on one block \<open>[begin, end)\<close> of the replicate
  range, lines 321-385: one generator per block, made from the seed, the start of the
  block and \<open>0xffaabb\<close>, and used by the replicates of the block one after the other.
\<close>

definition run_block ::
    "'g externals \<Rightarrow> cubatic \<Rightarrow> nat \<times> nat \<Rightarrow> replicate_arrays \<Rightarrow> replicate_arrays" where
  "run_block ext this r arr =
     (let thread_start = fst r;
          l_saru0 = Saru ext (m_seed this) thread_start 16755387
      in snd (fold (\<lambda>i (saru, arr).
                      (let a = replicate_body ext this saru
                       in (l_saru a, set_values ext this i a arr)))
                [fst r..<snd r] (l_saru0, arr)))"

text \<open>
  \<open>parallel_for\<close> splits \<open>[0, m_replicates)\<close> into blocks as the scheduler decides; the
  blocks, in the order in which they run, are the argument \<open>blocks\<close>.
\<close>

definition parallel_replicates ::
    "'g externals \<Rightarrow> cubatic \<Rightarrow> (nat \<times> nat) list \<Rightarrow> replicate_arrays" where
  "parallel_replicates ext this blocks =
     fold (run_block ext this) blocks
       \<lparr> p_cubatic_tensor = replicate (m_replicates this * 81) 0,
         p_cubatic_orientation = replicate (m_replicates this) (Quat 0 (Vec3 0 0 0)),
         p_cubatic_order_parameter = replicate (m_replicates this) 0 \<rparr>"

text \<open>The choice of the best replicate, lines 387-397.\<close>

definition select_max :: "float list \<Rightarrow> nat \<Rightarrow> nat" where
  "select_max p replicates =
     fst (fold (\<lambda>i (max_idx, max_cubatic_order_parameter).
                  if p ! i > max_cubatic_order_parameter then (i, p ! i)
                  else (max_idx, max_cubatic_order_parameter))
            [1..<replicates] (0, p ! 0))"

text \<open>
  \<open>compute\<close>, lines 289-424, in two parts: the resizing, the reset and the two tensor
  passes of lines 291-305, then the replicates, the choice among them and the
  per-particle order parameters.
\<close>

definition prepare :: "'g externals \<Rightarrow> cubatic \<Rightarrow> quat list \<Rightarrow> nat \<Rightarrow> cubatic" where
  "prepare ext this orientations n =
     (let this = (if m_n this \<noteq> n then this\<lparr> m_n := n \<rparr> else this);
          this = this\<lparr> m_global_tensor := tensor4_zero,
                       m_particle_tensor := replicate (m_n this * 81) 0,
                       m_particle_order_parameter := replicate (m_n this) 0 \<rparr>;
          this = calculatePerParticleTensor ext this orientations
      in calculateGlobalTensor ext this)"

definition compute ::
    "'g externals \<Rightarrow> cubatic \<Rightarrow> quat list \<Rightarrow> nat \<Rightarrow> (nat \<times> nat) list \<Rightarrow> cubatic" where
  "compute ext this orientations n blocks =
     (let this = prepare ext this orientations n;
          arr = parallel_replicates ext this blocks;
          max_idx = select_max (p_cubatic_order_parameter arr) (m_replicates this);
          this = this\<lparr> m_cubatic_tensor :=
                         take 81 (drop (Index2D ext (m_replicates this) 81 max_idx 0)
                                    (p_cubatic_tensor arr)),
                       m_cubatic_orientation := Some (p_cubatic_orientation arr ! max_idx),
                       m_cubatic_order_parameter :=
                         Some (p_cubatic_order_parameter arr ! max_idx) \<rparr>
      in this\<lparr> m_particle_order_parameter :=
                 map (\<lambda>i. calcCubaticOrderParameter this
                             (calcCubaticTensor ext this (orientations ! i)))
                   [0..<m_n this] \<rparr>)"

section \<open>VoronoiBuffer.cc\<close>

text \<open>What \<open>compute\<close> reads from \<open>m_box\<close>: the values of the getters of \<open>box::Box\<close>.\<close>

record Box =
  getLx :: float
  getLy :: float
  getLz :: float
  getTiltFactorXY :: float
  getTiltFactorXZ :: float
  getTiltFactorYZ :: float
  is2D :: bool

text \<open>
  \<open>VoronoiBuffer::compute\<close>, lines 18-100. The result is the pair of the vectors
  \<open>buffer_parts\<close> and \<open>buffer_ids\<close>. The two blocks that test one image and push it,
  lines 60-73 for a 2D box and lines 79-94 otherwise, come first.
\<close>

definition image_2d ::
    "Box \<Rightarrow> vec3 list \<Rightarrow> float \<Rightarrow> nat \<Rightarrow> int \<Rightarrow> int \<Rightarrow> vec3 list \<times> nat list
      \<Rightarrow> vec3 list \<times> nat list" where
  "image_2d m_box points buff particle i j acc =
     (let (buffer_parts, buffer_ids) = acc;
          lx = getLx m_box; ly = getLy m_box; xy = getTiltFactorXY m_box;
          lx_2_buff = 0.5 * lx + buff;
          ly_2_buff = 0.5 * ly + buff
      in if i \<noteq> 0 \<or> j \<noteq> 0 then
           (let img = Vec3 (vx (points ! particle) + of_int i * lx + of_int j * ly * xy)
                           (vy (points ! particle) + of_int j * ly)
                           0;
                xadj = vy img * xy
            in if vx img < lx_2_buff + xadj \<and> vx img > - lx_2_buff + xadj \<and>
                  vy img < ly_2_buff \<and> vy img > - ly_2_buff
               then (buffer_parts @ [img], buffer_ids @ [particle])
               else (buffer_parts, buffer_ids))
         else (buffer_parts, buffer_ids))"

definition image_3d ::
    "Box \<Rightarrow> vec3 list \<Rightarrow> float \<Rightarrow> nat \<Rightarrow> int \<Rightarrow> int \<Rightarrow> int \<Rightarrow> vec3 list \<times> nat list
      \<Rightarrow> vec3 list \<times> nat list" where
  "image_3d m_box points buff particle i j k acc =
     (let (buffer_parts, buffer_ids) = acc;
          lx = getLx m_box; ly = getLy m_box; lz = getLz m_box;
          xy = getTiltFactorXY m_box; xz = getTiltFactorXZ m_box; yz = getTiltFactorYZ m_box;
          lx_2_buff = 0.5 * lx + buff;
          ly_2_buff = 0.5 * ly + buff;
          lz_2_buff = 0.5 * lz + buff
      in if \<not> (i = 0 \<and> j = 0 \<and> k = 0) then
           (let img = Vec3 (vx (points ! particle) + of_int i * lx + of_int j * ly * xy
                              + of_int k * lz * xz)
                           (vy (points ! particle) + of_int j * ly + of_int k * lz * yz)
                           (vz (points ! particle) + of_int k * lz);
                xadj = vy img * xy + vz img * xz;
                yadj = vz img * yz
            in if vx img < lx_2_buff + xadj \<and> vx img > - lx_2_buff + xadj \<and>
                  vy img < ly_2_buff + yadj \<and> vy img > - ly_2_buff + yadj \<and>
                  vz img < lz_2_buff \<and> vz img > - lz_2_buff
               then (buffer_parts @ [img], buffer_ids @ [particle])
               else (buffer_parts, buffer_ids))
         else (buffer_parts, buffer_ids))"

text \<open>
  The loops. The bounds \<open>ix, iy, iz\<close> are the whole numbers \<open>ceil(buff / l)\<close>, and the
  \<open>int\<close> counters run from their negation up to them.
\<close>

definition VoronoiBuffer_compute ::
    "Box \<Rightarrow> vec3 list \<Rightarrow> nat \<Rightarrow> float \<Rightarrow> vec3 list \<times> nat list" where
  "VoronoiBuffer_compute m_box points Np buff =
     (let ix = \<lceil>buff / getLx m_box\<rceil>;
          iy = \<lceil>buff / getLy m_box\<rceil>;
          iz = \<lceil>buff / getLz m_box\<rceil>
      in fold (\<lambda>particle. fold (\<lambda>i. fold (\<lambda>j acc.
                 if is2D m_box then image_2d m_box points buff particle i j acc
                 else fold (\<lambda>k. image_3d m_box points buff particle i j k) [- iz..iz] acc)
               [- iy..iy]) [- ix..ix])
           [0..<Np] ([], []))"

section \<open>Notions of the statements\<close>

text \<open>
  The image of a point under the lattice translation \<open>i a\<^sub>1 + j a\<^sub>2 + k a\<^sub>3\<close> of a box
  with edge vectors \<open>a\<^sub>1 = (Lx, 0, 0)\<close>, \<open>a\<^sub>2 = (xy Ly, Ly, 0)\<close> and
  \<open>a\<^sub>3 = (xz Lz, yz Lz, Lz)\<close>; a point with its third coordinate set to zero when the
  box is 2D; and what is said of one entry of the buffer: its id is below \<open>Np\<close> and it is
  a lattice image, not the zero one, of the point with that id.
\<close>

definition lattice_image :: "Box \<Rightarrow> vec3 \<Rightarrow> int \<Rightarrow> int \<Rightarrow> int \<Rightarrow> vec3" where
  "lattice_image box p i j k =
     Vec3 (vx p + of_int i * getLx box + of_int j * (getLy box * getTiltFactorXY box)
             + of_int k * (getLz box * getTiltFactorXZ box))
          (vy p + of_int j * getLy box + of_int k * (getLz box * getTiltFactorYZ box))
          (vz p + of_int k * getLz box)"

definition in_plane :: "Box \<Rightarrow> vec3 \<Rightarrow> vec3" where
  "in_plane box p = (if is2D box then Vec3 (vx p) (vy p) 0 else p)"

definition buffer_entry :: "Box \<Rightarrow> vec3 list \<Rightarrow> nat \<Rightarrow> vec3 \<Rightarrow> nat \<Rightarrow> bool" where
  "buffer_entry box points Np img particle \<longleftrightarrow>
     particle < Np \<and>
     (\<exists>i j k. (i \<noteq> 0 \<or> j \<noteq> 0 \<or> k \<noteq> 0) \<and> (is2D box \<longrightarrow> k = 0) \<and>
        img = lattice_image box (in_plane box (points ! particle)) i j k)"

text \<open>
  The 81 numbers \<open>f i j k l\<close> in the order of the four nested loops: the entry for
  \<open>(i, j, k, l)\<close> is at position \<open>27 i + 9 j + 3 k + l\<close>.
\<close>

definition block4 :: "(nat \<Rightarrow> nat \<Rightarrow> nat \<Rightarrow> nat \<Rightarrow> float) \<Rightarrow> float list" where
  "block4 f = concat (map (\<lambda>i. concat (map (\<lambda>j. concat (map (\<lambda>k.
                concat (map (\<lambda>l. [f i j k l]) [0..<3])) [0..<3])) [0..<3])) [0..<3])"

text \<open>
  The coordinate \<open>i\<close> of a vector, the Kronecker delta and the three basis vectors.
\<close>

definition coord :: "vec3 \<Rightarrow> nat \<Rightarrow> float" where
  "coord u i = [vx u, vy u, vz u] ! i"

definition delta :: "nat \<Rightarrow> nat \<Rightarrow> float" where
  "delta i j = (if i = j then 1 else 0)"

definition basis :: "nat \<Rightarrow> vec3" where
  "basis m = Vec3 (delta m 0) (delta m 1) (delta m 2)"





section \<open>Sample inputs\<close>

text \<open>
  An instance of the parameters for runs on concrete inputs. It stands for no header of
  the project: the quaternion algebra is written with its usual formulas, the generator
  reads its numbers from a list (and returns the lower bound once the list is used up),
  a fresh generator holds three numbers, the last of which depends on the start of the
  block. The index is \<open>(i, j) \<mapsto> j w + i\<close>, the one of the header Index1D.h of the project
  as published; the header is not among the sources at hand.
\<close>

definition vm_dot :: "vec3 \<Rightarrow> vec3 \<Rightarrow> float" where
  "vm_dot a b = vx a * vx b + vy a * vy b + vz a * vz b"

definition vm_cross :: "vec3 \<Rightarrow> vec3 \<Rightarrow> vec3" where
  "vm_cross a b = Vec3 (vy a * vz b - vz a * vy b) (vz a * vx b - vx a * vz b)
                       (vx a * vy b - vy a * vx b)"

definition vm_scale :: "float \<Rightarrow> vec3 \<Rightarrow> vec3" where
  "vm_scale c a = Vec3 (c * vx a) (c * vy a) (c * vz a)"

definition vm_add :: "vec3 \<Rightarrow> vec3 \<Rightarrow> vec3" where
  "vm_add a b = Vec3 (vx a + vx b) (vy a + vy b) (vz a + vz b)"

definition sample_externals :: "float list externals" where
  "sample_externals =
     \<lparr> rotate_vec = (\<lambda>q u. vm_add (vm_add (vm_scale (qs q * qs q - vm_dot (qv q) (qv q)) u)
                                          (vm_scale (2 * qs q) (vm_cross (qv q) u)))
                                  (vm_scale (2 * vm_dot (qv q) u) (qv q))),
       quat_mul = (\<lambda>a b. Quat (qs a * qs b - vm_dot (qv a) (qv b))
                              (vm_add (vm_add (vm_scale (qs a) (qv b)) (vm_scale (qs b) (qv a)))
                                      (vm_cross (qv a) (qv b)))),
       fromAxisAngle = (\<lambda>axis angle. Quat (cos (angle / 2)) (vm_scale (sin (angle / 2)) axis)),
       vec3_dot = vm_dot,
       vec3_div = (\<lambda>a c. Vec3 (vx a / c) (vy a / c) (vz a / c)),
       Saru = (\<lambda>seed thread_start salt. [1 / 2, 1 / 2, 1 / (2 + real thread_start)]),
       saru_s = (\<lambda>tape a b. case tape of [] \<Rightarrow> (a, []) | u # tape \<Rightarrow> (a + (b - a) * u, tape)),
       Index2D = (\<lambda>w h i j. j * w + i) \<rparr>"

text \<open>
  An object made by the constructor with two replicates, one with three, and the
  variables of a replicate before a pass of the loop, with a given order parameter and
  generator.
\<close>

definition sample_cubatic :: cubatic where
  "sample_cubatic = (case CubaticOrderParameter 1 (1 / 2) (1 / 4) 2 0 of Inr this \<Rightarrow> this)"


definition sample_anneal :: "float \<Rightarrow> float list \<Rightarrow> float list anneal" where
  "sample_anneal order_parameter tape =
     \<lparr> cubatic_tensor = tensor4_zero, new_cubatic_tensor = tensor4_zero,
       cubatic_orientation = Quat 1 (Vec3 0 0 0), current_orientation = Quat 1 (Vec3 0 0 0),
       cubatic_order_parameter = order_parameter, new_order_parameter = order_parameter,
       t_current = 1, loop_count = 0, l_saru = tape \<rparr>"



text \<open>
  Two boxes that differ in the 2D flag only.
\<close>

definition sample_box_2d :: Box where
  "sample_box_2d = \<lparr> getLx = 10, getLy = 10, getLz = 10, getTiltFactorXY = 0,
                      getTiltFactorXZ = 0, getTiltFactorYZ = 0, is2D = True \<rparr>"

definition sample_box_3d :: Box where
  "sample_box_3d = \<lparr> getLx = 10, getLy = 10, getLz = 10, getTiltFactorXY = 0,
                      getTiltFactorXZ = 0, getTiltFactorYZ = 0, is2D = False \<rparr>"

section \<open>Auxiliary lemmas\<close>

subsection \<open>Loops as sums and as blocks\<close>

lemma fold_upt_sum:
  fixes f :: "nat \<Rightarrow> real"
  shows "fold (\<lambda>i c. c + f i) [0..<n] c0 = c0 + (\<Sum>i<n. f i)"
  by (induction n) simp_all

lemma dot_sum: "dot a b = (\<Sum>i<81. a ! i * b ! i)"
  by (simp add: dot_def fold_upt_sum)

lemma dot_self_nonneg: "0 \<le> dot a a"
  unfolding dot_sum by (rule sum_nonneg) simp

lemma order_parameter_le_1: "calcCubaticOrderParameter this T \<le> 1"
  by (simp add: calcCubaticOrderParameter_def Let_def dot_self_nonneg)

lemma tensor4_minus_nth: "i < 81 \<Longrightarrow> tensor4_minus a b ! i = a ! i - b ! i"
  unfolding tensor4_minus_def by (simp del: upt_Suc)

lemma dot_minus_self: "dot (tensor4_minus T T) (tensor4_minus T T) = 0"
  by (simp add: dot_sum tensor4_minus_nth)

lemma calcCubaticTensor_global:
  "calcCubaticTensor ext (this\<lparr> m_global_tensor := G \<rparr>) q = calcCubaticTensor ext this q"
  by (simp add: calcCubaticTensor_def)

lemma fold_invariant:
  assumes "I acc" and "\<And>x acc. x \<in> set xs \<Longrightarrow> I acc \<Longrightarrow> I (f x acc)"
  shows "I (fold f xs acc)"
  using assms by (induction xs arbitrary: acc) simp_all

lemma upt3: "[0..<3] = [0, 1, 2]" by (simp add: upt_rec)

lemma fold_fill_blocks:
  fixes g :: "nat \<Rightarrow> float list \<times> nat \<Rightarrow> float list \<times> nat"
  assumes step: "\<And>x pre n. w \<le> n \<Longrightarrow>
        g x (pre @ replicate n 0, length pre) = (pre @ h x @ replicate (n - w) 0, length pre + w)"
    and len: "\<And>x. length (h x) = w"
  shows "m * w \<le> n \<Longrightarrow>
        fold g [0..<m] (pre @ replicate n 0, length pre)
          = (pre @ concat (map h [0..<m]) @ replicate (n - m * w) 0, length pre + m * w)"
proof (induction m)
  case 0
  then show ?case by simp
next
  case (Suc m)
  then have le: "m * w \<le> n" and le': "w \<le> n - m * w" by simp_all
  let ?pre = "pre @ concat (map h [0..<m])"
  have lpre: "length ?pre = length pre + m * w"
    by (simp add: length_concat comp_def len sum_list_triv)
  have "g m (?pre @ replicate (n - m * w) 0, length ?pre)
          = (?pre @ h m @ replicate (n - m * w - w) 0, length ?pre + w)"
    using step [OF le'] .
  then show ?case
    using Suc.IH [OF le] lpre by (simp add: add.commute diff_diff_left add.assoc)
qed

lemma nth_concat_blocks:
  assumes len: "\<And>x. length (h x) = w"
  shows "i < m \<Longrightarrow> r < w \<Longrightarrow> concat (map h [0..<m]) ! (i * w + r) = h i ! r"
proof (induction m)
  case 0
  then show ?case by simp
next
  case (Suc m)
  have lc: "length (concat (map h [0..<m])) = m * w"
    by (simp add: length_concat comp_def len sum_list_triv)
  show ?case
  proof (cases "i < m")
    case True
    then have "i * w + r < m * w"
      using Suc.prems(2)
      by (metis add.commute  mult_Suc  less_le_trans Suc_leI add_less_cancel_left mult_le_mono1)
    then show ?thesis using Suc.IH [OF True Suc.prems(2)] lc by (simp add: nth_append)
  next
    case False
    then have "i = m" using Suc.prems(1) by simp
    then show ?thesis using lc len Suc.prems(2) by (simp add: nth_append)
  qed
qed

lemma fold4_fill:
  fixes body :: "nat \<Rightarrow> nat \<Rightarrow> nat \<Rightarrow> nat \<Rightarrow> float list \<times> nat \<Rightarrow> float list \<times> nat"
  assumes inner: "\<And>i j k l pre n. 1 \<le> n \<Longrightarrow>
        body i j k l (pre @ replicate n 0, length pre)
          = (pre @ [f i j k l] @ replicate (n - 1) 0, length pre + 1)"
  shows "fst (fold (\<lambda>i. fold (\<lambda>j. fold (\<lambda>k. fold (body i j k) [0..<3]) [0..<3]) [0..<3]) [0..<3]
               (replicate 81 0, 0)) = block4 f"
proof -
  have l1: "fold (body i j k) [0..<3] (pre @ replicate n 0, length pre)
      = (pre @ concat (map (\<lambda>l. [f i j k l]) [0..<3]) @ replicate (n - 3) 0, length pre + 3)"
    if "3 \<le> n" for i j k pre n
    using fold_fill_blocks [where g = "body i j k" and h = "\<lambda>l. [f i j k l]" and w = 1 and m = 3
        and n = n and pre = pre, OF inner] that by simp
  have l2: "fold (\<lambda>k. fold (body i j k) [0..<3]) [0..<3] (pre @ replicate n 0, length pre)
      = (pre @ concat (map (\<lambda>k. concat (map (\<lambda>l. [f i j k l]) [0..<3])) [0..<3])
           @ replicate (n - 9) 0, length pre + 9)"
    if "9 \<le> n" for i j pre n
    using fold_fill_blocks [where g = "\<lambda>k. fold (body i j k) [0..<3]"
        and h = "\<lambda>k. concat (map (\<lambda>l. [f i j k l]) [0..<3])" and w = 3 and m = 3
        and n = n and pre = pre, OF l1] that by (simp add: upt3)
  have l3: "fold (\<lambda>j. fold (\<lambda>k. fold (body i j k) [0..<3]) [0..<3]) [0..<3]
        (pre @ replicate n 0, length pre)
      = (pre @ concat (map (\<lambda>j. concat (map (\<lambda>k. concat (map (\<lambda>l. [f i j k l]) [0..<3]))
           [0..<3])) [0..<3]) @ replicate (n - 27) 0, length pre + 27)"
    if "27 \<le> n" for i pre n
    using fold_fill_blocks [where g = "\<lambda>j. fold (\<lambda>k. fold (body i j k) [0..<3]) [0..<3]"
        and h = "\<lambda>j. concat (map (\<lambda>k. concat (map (\<lambda>l. [f i j k l]) [0..<3])) [0..<3])"
        and w = 9 and m = 3 and n = n and pre = pre, OF l2] that by (simp add: upt3)
  have l4: "fold (\<lambda>i. fold (\<lambda>j. fold (\<lambda>k. fold (body i j k) [0..<3]) [0..<3]) [0..<3]) [0..<3]
        ([] @ replicate 81 0, length ([] :: float list))
      = ([] @ block4 f @ replicate (81 - 81) 0, length ([] :: float list) + 81)"
    unfolding block4_def
    using fold_fill_blocks [where g = "\<lambda>i. fold (\<lambda>j. fold (\<lambda>k. fold (body i j k) [0..<3]) [0..<3]) [0..<3]"
        and h = "\<lambda>i. concat (map (\<lambda>j. concat (map (\<lambda>k. concat (map (\<lambda>l. [f i j k l]) [0..<3]))
           [0..<3])) [0..<3])"
        and w = 27 and m = 3 and n = 81 and pre = "[]", OF l3] by (simp add: upt3)
  then show ?thesis by simp
qed

lemma length_block4: "length (block4 f) = 81"
  by (simp add: block4_def upt3)

lemma block4_nth:
  assumes "i < 3" "j < 3" "k < 3" "l < 3"
  shows "block4 f ! (27 * i + 9 * j + 3 * k + l) = f i j k l"
proof -
  let ?h1 = "\<lambda>i j k l. [f i j k l]"
  let ?h2 = "\<lambda>i j k. concat (map (?h1 i j k) [0..<3])"
  let ?h3 = "\<lambda>i j. concat (map (?h2 i j) [0..<3])"
  let ?h4 = "\<lambda>i. concat (map (?h3 i) [0..<3])"
  have "block4 f ! (i * 27 + (j * 9 + (k * 3 + (l * 1 + 0)))) = ?h4 i ! (j * 9 + (k * 3 + (l * 1 + 0)))"
    unfolding block4_def
    by (rule nth_concat_blocks) (use assms in \<open>simp_all add: upt3\<close>)
  also have "\<dots> = ?h3 i j ! (k * 3 + (l * 1 + 0))"
    by (rule nth_concat_blocks) (use assms in \<open>simp_all add: upt3\<close>)
  also have "\<dots> = ?h2 i j k ! (l * 1 + 0)"
    by (rule nth_concat_blocks) (use assms in \<open>simp_all add: upt3\<close>)
  also have "\<dots> = ?h1 i j k l ! 0"
    by (rule nth_concat_blocks) (use assms in \<open>simp_all add: upt3\<close>)
  finally show ?thesis by (simp add: algebra_simps)
qed

lemma tensor4_vec_block4:
  "tensor4_vec u = block4 (\<lambda>i j k l. [vx u, vy u, vz u] ! i * [vx u, vy u, vz u] ! j
                              * [vx u, vy u, vz u] ! k * [vx u, vy u, vz u] ! l)"
  unfolding tensor4_vec_def Let_def
proof (rule fold4_fill)
  fix i j k l :: nat and pre :: "float list" and n :: nat
  assume "1 \<le> n"
  then obtain n' where "n = Suc n'" by (cases n) simp_all
  then show "(case (pre @ replicate n 0, length pre) of
          (data, cnt) \<Rightarrow>
            (data[cnt := [vx u, vy u, vz u] ! i * [vx u, vy u, vz u] ! j
                          * [vx u, vy u, vz u] ! k * [vx u, vy u, vz u] ! l], cnt + 1))
        = (pre @ [[vx u, vy u, vz u] ! i * [vx u, vy u, vz u] ! j
                          * [vx u, vy u, vz u] ! k * [vx u, vy u, vz u] ! l]
             @ replicate (n - 1) 0, length pre + 1)"
    by simp
qed

lemma genR4Tensor_block4:
  "genR4Tensor = block4 (\<lambda>i j k l. (identity i j * identity k l + identity i k * identity j l
                                      + identity i l * identity j k) * (2 / 5))"
  unfolding genR4Tensor_def tensor4_zero_def
proof (rule fold4_fill)
  fix i j k l :: nat and pre :: "float list" and n :: nat
  assume "1 \<le> n"
  then obtain n' where "n = Suc n'" by (cases n) simp_all
  then show "(case (pre @ replicate n 0, length pre) of
          (r4, cnt) \<Rightarrow>
            (let r4 = r4[cnt := r4 ! cnt + identity i j * identity k l];
                 r4 = r4[cnt := r4 ! cnt + identity i k * identity j l];
                 r4 = r4[cnt := r4 ! cnt + identity i l * identity j k];
                 r4 = r4[cnt := r4 ! cnt * (2 / 5)]
             in (r4, cnt + 1)))
        = (pre @ [(identity i j * identity k l + identity i k * identity j l
                     + identity i l * identity j k) * (2 / 5)]
             @ replicate (n - 1) 0, length pre + 1)"
    by (simp add: Let_def)
qed

subsection \<open>The cubatic tensor\<close>

lemma tensor4_add_nth: "i < 81 \<Longrightarrow> tensor4_add a b ! i = a ! i + b ! i"
  unfolding tensor4_add_def by (simp del: upt_Suc)

lemma tensor4_scale_nth: "i < 81 \<Longrightarrow> tensor4_scale a b ! i = a ! i * b"
  unfolding tensor4_scale_def by (simp del: upt_Suc)

lemma tensor4_zero_nth: "i < 81 \<Longrightarrow> tensor4_zero ! i = 0"
  by (simp add: tensor4_zero_def)

lemma length_tensor4_minus: "length (tensor4_minus a b) = 81"
  by (simp add: tensor4_minus_def)

lemma length_calcCubaticTensor: "length (calcCubaticTensor ext this q) = 81"
  by (simp add: calcCubaticTensor_def Let_def length_tensor4_minus)

lemma calcCubaticTensor_nth:
  assumes "n < 81"
  shows "calcCubaticTensor ext this q ! n
           = (tensor4_vec (rotate_vec ext q (m_system_vectors this ! 0)) ! n
              + tensor4_vec (rotate_vec ext q (m_system_vectors this ! 1)) ! n
              + tensor4_vec (rotate_vec ext q (m_system_vectors this ! 2)) ! n) * 2
             - m_gen_r4_tensor this ! n"
  using assms
  by (simp add: calcCubaticTensor_def Let_def upt3 tensor4_minus_nth tensor4_scale_nth
      tensor4_add_nth tensor4_zero_nth)

lemma calcCubaticTensor_component:
  assumes "m_system_vectors this = [Vec3 1 0 0, Vec3 0 1 0, Vec3 0 0 1]"
    and "m_gen_r4_tensor this = genR4Tensor"
    and "i < 3" "j < 3" "k < 3" "l < 3"
  shows "calcCubaticTensor ext this q ! (27 * i + 9 * j + 3 * k + l)
           = 2 * (\<Sum>m<3. coord (rotate_vec ext q (basis m)) i * coord (rotate_vec ext q (basis m)) j
                          * coord (rotate_vec ext q (basis m)) k * coord (rotate_vec ext q (basis m)) l)
             - 2 / 5 * (delta i j * delta k l + delta i k * delta j l + delta i l * delta j k)"
proof -
  have n: "27 * i + 9 * j + 3 * k + l < 81" using assms(3-6) by simp
  have b: "basis 0 = Vec3 1 0 0" "basis 1 = Vec3 0 1 0" "basis 2 = Vec3 0 0 1"
    by (simp_all add: basis_def delta_def)
  have s: "(\<Sum>m<3. f m) = f 0 + f 1 + f (2::nat)" for f :: "nat \<Rightarrow> real"
    by (simp add: numeral_3_eq_3 lessThan_Suc numeral_2_eq_2 add.commute add.left_commute)
  have id: "identity = delta"
    by (simp add: identity_def delta_def fun_eq_iff)
  show ?thesis
    unfolding calcCubaticTensor_nth [OF n] assms(1,2) tensor4_vec_block4 genR4Tensor_block4
      block4_nth [OF assms(3-6)] s b id coord_def
    by (simp add: algebra_simps)
qed

lemma compute_keeps_reference:
  "m_gen_r4_tensor (compute ext this orientations n blocks) = m_gen_r4_tensor this"
  "m_system_vectors (compute ext this orientations n blocks) = m_system_vectors this"
  by (simp_all add: compute_def prepare_def calculatePerParticleTensor_def
      calculateGlobalTensor_def Let_def)

lemma calcCubaticTensor_cong:
  "m_gen_r4_tensor this' = m_gen_r4_tensor this \<Longrightarrow>
   m_system_vectors this' = m_system_vectors this \<Longrightarrow>
   calcCubaticTensor ext this' q = calcCubaticTensor ext this q"
  by (simp add: calcCubaticTensor_def)

lemma constructed_fields:
  assumes "CubaticOrderParameter t_initial t_final scale replicates seed = Inr this"
  shows "m_system_vectors this = [Vec3 1 0 0, Vec3 0 1 0, Vec3 0 0 1]"
    and "m_gen_r4_tensor this = genR4Tensor"
  using assms by (auto simp: CubaticOrderParameter_def split: if_splits)

subsection \<open>The annealing loop\<close>

lemma anneal_step_loop_count: "loop_count (anneal_step ext this a) = loop_count a + 1"
  by (simp add: anneal_step_def Let_def split: prod.splits)

lemma anneal_step_t_current:
  "t_current (anneal_step ext this a) = t_current a
   \<or> t_current (anneal_step ext this a) = t_current a * m_scale this"
  by (simp add: anneal_step_def Let_def split: prod.splits)

lemma anneal_loop_iterations:
  "\<exists>n. loop_count a + n \<le> max (loop_count a) 10000
     \<and> anneal_loop ext this a = (anneal_step ext this ^^ n) a
     \<and> (\<forall>m<n. t_current ((anneal_step ext this ^^ m) a) > m_t_final this)
     \<and> (loop_count a + n \<ge> 10000 \<or> t_current ((anneal_step ext this ^^ n) a) \<le> m_t_final this)
     \<and> (\<exists>k\<le>n. t_current ((anneal_step ext this ^^ n) a) = t_current a * m_scale this ^ k)"
proof (induction ext this a rule: anneal_loop.induct)
  case (1 ext this a)
  show ?case
  proof (cases "t_current a > m_t_final this \<and> loop_count a < 10000")
    case True
    let ?b = "anneal_step ext this a"
    have lb: "loop_count ?b = loop_count a + 1" by (rule anneal_step_loop_count)
    from "1.IH" [OF True] obtain n k where n:
      "loop_count ?b + n \<le> max (loop_count ?b) 10000"
      "anneal_loop ext this ?b = (anneal_step ext this ^^ n) ?b"
      "\<forall>m<n. t_current ((anneal_step ext this ^^ m) ?b) > m_t_final this"
      "loop_count ?b + n \<ge> 10000 \<or> t_current ((anneal_step ext this ^^ n) ?b) \<le> m_t_final this"
      "k \<le> n" "t_current ((anneal_step ext this ^^ n) ?b) = t_current ?b * m_scale this ^ k"
      by blast
    have eq: "anneal_loop ext this a = anneal_loop ext this ?b"
      using True by (simp add: anneal_loop.simps [of ext this a])
    have pow: "(anneal_step ext this ^^ m) ?b = (anneal_step ext this ^^ Suc m) a" for m
      by (simp add: funpow_swap1)
    have guard: "\<forall>m<Suc n. t_current ((anneal_step ext this ^^ m) a) > m_t_final this"
    proof (intro allI impI)
      fix m assume "m < Suc n"
      then show "t_current ((anneal_step ext this ^^ m) a) > m_t_final this"
        using True n(3) pow by (cases m) auto
    qed
    have cool: "\<exists>k\<le>Suc n. t_current ((anneal_step ext this ^^ Suc n) a)
                  = t_current a * m_scale this ^ k"
      using anneal_step_t_current [of ext this a]
    proof
      assume "t_current ?b = t_current a"
      then show ?thesis using n(5,6) pow [of n] by (intro exI [of _ k]) simp
    next
      assume "t_current ?b = t_current a * m_scale this"
      then show ?thesis using n(5,6) pow [of n] by (intro exI [of _ "Suc k"]) simp
    qed
    show ?thesis
      apply (rule exI [of _ "Suc n"])
      using True n(1,2,4) lb eq guard cool pow [of n] by (simp add: max_def split: if_splits)
  next
    case False
    then show ?thesis
      by (intro exI [of _ 0]) (auto simp: anneal_loop.simps [of ext this a])
  qed
qed

subsection \<open>The replicates and their arrays\<close>






























subsection \<open>The sample inputs\<close>

lemma sample_quaternion_0:
  "calcRandomQuaternion sample_externals [] m = (Quat 1 (Vec3 0 0 0), [])"
  by (simp add: calcRandomQuaternion_def sample_externals_def vm_dot_def vm_scale_def)

lemma sample_quaternion_1:
  "calcRandomQuaternion sample_externals [0, 0, 0, u] m = (Quat 1 (Vec3 0 0 0), [u])"
  by (simp add: calcRandomQuaternion_def sample_externals_def vm_dot_def vm_scale_def)

lemma sample_quat_mul_1:
  "quat_mul sample_externals (Quat 1 (Vec3 0 0 0)) q = q"
  by (cases q, cases "qv q")
     (simp add: sample_externals_def vm_dot_def vm_scale_def vm_add_def vm_cross_def)

lemma sample_cubatic_fields:
  "m_t_initial sample_cubatic = 1" "m_t_final sample_cubatic = 1 / 2"
  "m_scale sample_cubatic = 1 / 4" "m_replicates sample_cubatic = 2" "m_seed sample_cubatic = 0"
  by (simp_all add: sample_cubatic_def CubaticOrderParameter_def)

lemma sample_saru_s_nil: "saru_s sample_externals [] a b = (a, [])"
  by (simp add: sample_externals_def)

lemma sample_saru_s_cons: "saru_s sample_externals (u # tape) a b = (a + (b - a) * u, tape)"
  by (simp add: sample_externals_def)

lemma sample_initial:
  "initial_anneal sample_externals this [] =
     \<lparr> cubatic_tensor = calcCubaticTensor sample_externals this (Quat 1 (Vec3 0 0 0)),
       new_cubatic_tensor = tensor4_zero,
       cubatic_orientation = Quat 1 (Vec3 0 0 0), current_orientation = Quat 1 (Vec3 0 0 0),
       cubatic_order_parameter =
         calcCubaticOrderParameter this (calcCubaticTensor sample_externals this (Quat 1 (Vec3 0 0 0))),
       new_order_parameter =
         calcCubaticOrderParameter this (calcCubaticTensor sample_externals this (Quat 1 (Vec3 0 0 0))),
       t_current = m_t_initial this, loop_count = 0, l_saru = [] \<rparr>"
  by (simp add: initial_anneal_def sample_quaternion_0 Let_def)

lemma sample_step_t_current:
  "t_current (anneal_step sample_externals sample_cubatic
                (initial_anneal sample_externals sample_cubatic [])) = 1 / 4"
  by (simp add: sample_initial anneal_step_def sample_quaternion_0 sample_quat_mul_1
      sample_saru_s_nil sample_cubatic_fields Let_def)

lemma exp_minus_bound: "x \<le> 1 \<Longrightarrow> exp (x - 2) < (3 / 4 :: real)"
proof -
  assume "x \<le> 1"
  then have "exp (x - 2) \<le> exp (- 1 :: real)" by simp
  moreover have "(2 :: real) \<le> exp 1" using exp_ge_add_one_self [of "1 :: real"] by simp
  then have "exp (- 1 :: real) \<le> 1 / 2"
    by (simp add: exp_minus inverse_eq_divide field_simps)
  ultimately show ?thesis by linarith
qed

lemma sample_cubatic_constructed:
  "CubaticOrderParameter 1 (1 / 2) (1 / 4) 2 0 = Inr sample_cubatic"
  by (simp add: sample_cubatic_def CubaticOrderParameter_def)

lemma upto_m1_1: "[- 1..1] = [- 1, 0, 1 :: int]"
  by (simp add: upto.simps)

lemma ceiling_tenth: "\<lceil>1 / 10 :: real\<rceil> = 1"
  by (simp add: ceiling_eq_iff)

lemma sample_run_2d:
  "VoronoiBuffer_compute sample_box_2d [Vec3 (9 / 2) 0 1] 1 1 = ([Vec3 (- 11 / 2) 0 0], [0])"
  by (simp add: VoronoiBuffer_compute_def sample_box_2d_def ceiling_tenth upto_m1_1
      image_2d_def Let_def)

lemma sample_run_3d:
  "VoronoiBuffer_compute sample_box_3d [Vec3 (9 / 2) 0 1] 1 1 = ([Vec3 (- 11 / 2) 0 1], [0])"
  by (simp add: VoronoiBuffer_compute_def sample_box_3d_def ceiling_tenth upto_m1_1
      image_3d_def Let_def)



subsection \<open>A run of the samples under two splittings\<close>

















subsection \<open>A run of the sample with three replicates\<close>









subsection \<open>The buffer of images\<close>

lemma image_2d_entries:
  assumes "is2D box" "particle < Np"
    and "list_all2 (buffer_entry box points Np) (fst acc) (snd acc)"
  shows "list_all2 (buffer_entry box points Np) (fst (image_2d box points buff particle i j acc))
           (snd (image_2d box points buff particle i j acc))"
proof -
  obtain parts ids where acc: "acc = (parts, ids)" by (cases acc)
  have "buffer_entry box points Np
          (Vec3 (vx (points ! particle) + of_int i * getLx box
                   + of_int j * getLy box * getTiltFactorXY box)
                (vy (points ! particle) + of_int j * getLy box) 0) particle"
    if "i \<noteq> 0 \<or> j \<noteq> 0"
    unfolding buffer_entry_def
    using assms(1,2) that
    by (intro conjI exI [of _ i] exI [of _ j] exI [of _ 0])
       (simp_all add: lattice_image_def in_plane_def)
  then show ?thesis
    using assms(3) by (auto simp: acc image_2d_def Let_def intro!: list_all2_appendI)
qed

lemma image_3d_entries:
  assumes "\<not> is2D box" "particle < Np"
    and "list_all2 (buffer_entry box points Np) (fst acc) (snd acc)"
  shows "list_all2 (buffer_entry box points Np) (fst (image_3d box points buff particle i j k acc))
           (snd (image_3d box points buff particle i j k acc))"
proof -
  obtain parts ids where acc: "acc = (parts, ids)" by (cases acc)
  have "buffer_entry box points Np
          (Vec3 (vx (points ! particle) + of_int i * getLx box
                   + of_int j * getLy box * getTiltFactorXY box
                   + of_int k * getLz box * getTiltFactorXZ box)
                (vy (points ! particle) + of_int j * getLy box
                   + of_int k * getLz box * getTiltFactorYZ box)
                (vz (points ! particle) + of_int k * getLz box)) particle"
    if "\<not> (i = 0 \<and> j = 0 \<and> k = 0)"
    unfolding buffer_entry_def
    using assms(1,2) that
    by (intro conjI exI [of _ i] exI [of _ j] exI [of _ k])
       (auto simp add: lattice_image_def in_plane_def)
  then show ?thesis
    using assms(3) by (auto simp: acc image_3d_def Let_def intro!: list_all2_appendI)
qed

lemma buffer_entries:
  "list_all2 (buffer_entry box points Np) (fst (VoronoiBuffer_compute box points Np buff))
     (snd (VoronoiBuffer_compute box points Np buff))"
proof -
  let ?I = "\<lambda>acc. list_all2 (buffer_entry box points Np) (fst acc) (snd acc)"
  have "?I (VoronoiBuffer_compute box points Np buff)"
    unfolding VoronoiBuffer_compute_def Let_def
  proof (rule fold_invariant [where I = ?I], simp, rule fold_invariant [where I = ?I], assumption,
      rule fold_invariant [where I = ?I], assumption)
    fix particle :: nat and i j :: int and acc :: "vec3 list \<times> nat list"
    assume p: "particle \<in> set [0..<Np]" and inv: "?I acc"
    from p have lt: "particle < Np" by simp
    show "?I (if is2D box then image_2d box points buff particle i j acc
              else fold (\<lambda>k. image_3d box points buff particle i j k)
                     [- \<lceil>buff / getLz box\<rceil>..\<lceil>buff / getLz box\<rceil>] acc)"
    proof (cases "is2D box")
      case True
      then show ?thesis using image_2d_entries [OF True lt inv] by simp
    next
      case False
      have "?I (fold (\<lambda>k. image_3d box points buff particle i j k)
                     [- \<lceil>buff / getLz box\<rceil>..\<lceil>buff / getLz box\<rceil>] acc)"
        by (rule fold_invariant [where I = ?I], rule inv, rule image_3d_entries [OF False lt])
      then show ?thesis using False by simp
    qed
  qed
  then show ?thesis .
qed

section \<open>Properties\<close>




text \<open>
  C2, as the claim has it: a \<open>scale\<close> outside the open interval \<open>(0, 1)\<close> makes the
  constructor fail. It does not: with \<open>t_initial = 2\<close>, \<open>t_final = 1\<close> and \<open>scale = 1\<close> the
  constructor returns an object, since its third check rejects \<open>scale > 1\<close> and
  \<open>scale < 0\<close> only.
\<close>

theorem constructor_accepts_scale_one:
  "(1::real) \<notin> {0<..<1} \<and> \<not> isl (CubaticOrderParameter 2 1 1 1 0)"
  by (simp add: CubaticOrderParameter_def)

text \<open>
  C2, amended. The constructor fails with \<open>std::invalid_argument\<close> when
  \<open>t_initial < t_final\<close>, or \<open>t_final < 1e-6\<close>, or \<open>scale < 0\<close>, or \<open>scale > 1\<close>, and then no
  object exists on which anything could be computed; with \<open>t_initial > t_final\<close>,
  \<open>t_final \<ge> 1e-6\<close> and \<open>0 \<le> scale \<le> 1\<close> it returns an object, whose per-particle arrays
  are empty. Nothing is said of \<open>t_initial = t_final\<close>.
\<close>

theorem constructor_validation:
  "(t_initial < t_final \<or> t_final < 1 / 1000000 \<or> scale < 0 \<or> 1 < scale
      \<longrightarrow> (\<exists>msg. CubaticOrderParameter t_initial t_final scale replicates seed
                   = Inl (invalid_argument msg)))
   \<and> (t_final < t_initial \<and> 1 / 1000000 \<le> t_final \<and> 0 \<le> scale \<and> scale \<le> 1
      \<longrightarrow> (\<exists>this. CubaticOrderParameter t_initial t_final scale replicates seed = Inr this
                   \<and> m_n this = 0 \<and> m_particle_tensor this = []
                   \<and> m_particle_order_parameter this = []))"
  by (auto simp: CubaticOrderParameter_def)

theorem constructor_validation_witness:
  "(\<exists>msg. CubaticOrderParameter 1 2 (1 / 2) 1 0 = Inl (invalid_argument msg))
   \<and> (\<exists>this. CubaticOrderParameter 2 1 (1 / 2) 1 0 = Inr this
          \<and> m_n this = 0 \<and> m_particle_tensor this = [] \<and> m_particle_order_parameter this = [])"
  using constructor_validation [of 1 2 "1 / 2" 1 0] constructor_validation [of 2 1 "1 / 2" 1 0]
  by simp

text \<open>
  C3. For an object made by the constructor and every orientation \<open>q\<close>, the component
  \<open>(i, j, k, l)\<close> of the tensor of \<open>calcCubaticTensor\<close>, stored at \<open>27 i + 9 j + 3 k + l\<close>, is
  twice the sum over the three basis vectors \<open>e\<^sub>m\<close> of the product of the coordinates
  \<open>i, j, k, l\<close> of the rotated vector \<open>R\<^sub>q e\<^sub>m\<close>, minus the component of the reference
  tensor, which is \<open>2/5 (\<delta>\<^sub>i\<^sub>j \<delta>\<^sub>k\<^sub>l + \<delta>\<^sub>i\<^sub>k \<delta>\<^sub>j\<^sub>l + \<delta>\<^sub>i\<^sub>l \<delta>\<^sub>j\<^sub>k)\<close>. The reference tensor is the one
  the constructor stored; \<open>compute\<close> leaves it as it is, so a call after \<open>compute\<close> gives
  the same tensor.
\<close>

theorem cubatic_tensor_formula:
  assumes "CubaticOrderParameter t_initial t_final scale replicates seed = Inr this"
    and "i < 3" "j < 3" "k < 3" "l < 3"
  shows "calcCubaticTensor ext this q ! (27 * i + 9 * j + 3 * k + l)
           = 2 * (\<Sum>m<3. coord (rotate_vec ext q (basis m)) i * coord (rotate_vec ext q (basis m)) j
                          * coord (rotate_vec ext q (basis m)) k * coord (rotate_vec ext q (basis m)) l)
             - 2 / 5 * (delta i j * delta k l + delta i k * delta j l + delta i l * delta j k)
         \<and> m_gen_r4_tensor this ! (27 * i + 9 * j + 3 * k + l)
           = 2 / 5 * (delta i j * delta k l + delta i k * delta j l + delta i l * delta j k)
         \<and> length (calcCubaticTensor ext this q) = 81
         \<and> m_gen_r4_tensor (compute ext this orientations n blocks) = m_gen_r4_tensor this
         \<and> calcCubaticTensor ext (compute ext this orientations n blocks) q
           = calcCubaticTensor ext this q"
proof -
  have id: "identity = delta"
    by (simp add: identity_def delta_def fun_eq_iff)
  have "m_gen_r4_tensor this ! (27 * i + 9 * j + 3 * k + l)
           = 2 / 5 * (delta i j * delta k l + delta i k * delta j l + delta i l * delta j k)"
    unfolding constructed_fields(2) [OF assms(1)] genR4Tensor_block4 block4_nth [OF assms(2-5)] id
    by simp
  moreover have "calcCubaticTensor ext (compute ext this orientations n blocks) q
           = calcCubaticTensor ext this q"
    by (rule calcCubaticTensor_cong) (rule compute_keeps_reference)+
  ultimately show ?thesis
    using calcCubaticTensor_component [OF constructed_fields [OF assms(1)] assms(2-5), of ext q]
      compute_keeps_reference(1) [of ext this orientations n blocks]
      length_calcCubaticTensor [of ext this q]
    by (intro conjI) assumption+
qed

theorem cubatic_tensor_formula_witness:
  "CubaticOrderParameter 1 (1 / 2) (1 / 4) 2 0 = Inr sample_cubatic
   \<and> calcCubaticTensor sample_externals sample_cubatic (Quat 1 (Vec3 0 0 0)) ! 0 = 4 / 5
   \<and> m_gen_r4_tensor sample_cubatic ! 0 = 6 / 5"
proof -
  have s: "(\<Sum>m<3. f m) = f 0 + f 1 + f (2::nat)" for f :: "nat \<Rightarrow> real"
    by (simp add: numeral_3_eq_3 lessThan_Suc numeral_2_eq_2 add.commute add.left_commute)
  have z: "(0::nat) < 3" by simp
  show ?thesis
    using cubatic_tensor_formula [OF sample_cubatic_constructed z z z z,
        of sample_externals "Quat 1 (Vec3 0 0 0)"]
    by (simp add: sample_cubatic_constructed s coord_def basis_def delta_def sample_externals_def
        vm_add_def vm_scale_def vm_dot_def vm_cross_def)
qed

text \<open>
  C4. For every tensor \<open>T\<close> and every global tensor \<open>G\<close> held by the object,
  \<open>calcCubaticOrderParameter\<close> returns \<open>1 - dot(G - T, G - T) / dot(T, T)\<close>, where \<open>dot\<close>
  is the sum over the 81 components of the products of the components. (When
  \<open>dot(T, T)\<close> is zero, both sides are the same quotient by zero.)
\<close>

theorem order_parameter_formula:
  "calcCubaticOrderParameter this T =
     1 - (\<Sum>i<81. (m_global_tensor this ! i - T ! i) * (m_global_tensor this ! i - T ! i))
           / (\<Sum>i<81. T ! i * T ! i)"
  by (simp add: calcCubaticOrderParameter_def Let_def dot_sum tensor4_minus_nth)

text \<open>
  C5. The annealing loop of a replicate ends: it makes some number \<open>n \<le> 10000\<close> of
  passes, \<open>loop_count\<close> counts them, the temperature is above \<open>t_final\<close> before each
  pass that is made, and after the last one either \<open>n = 10000\<close> or the temperature is at
  or below \<open>t_final\<close>. The temperature starts at \<open>t_initial\<close> and is multiplied by \<open>scale\<close>
  once for each accepted pass, \<open>k\<close> times in all.
\<close>

theorem annealing_terminates:
  "\<exists>n\<le>10000.
     replicate_body ext this saru = (anneal_step ext this ^^ n) (initial_anneal ext this saru)
     \<and> loop_count (replicate_body ext this saru) = n
     \<and> (\<forall>m<n. t_current ((anneal_step ext this ^^ m) (initial_anneal ext this saru))
                > m_t_final this)
     \<and> (n = 10000 \<or> t_current (replicate_body ext this saru) \<le> m_t_final this)
     \<and> (\<exists>k\<le>n. t_current (replicate_body ext this saru) = m_t_initial this * m_scale this ^ k)"
proof -
  let ?a = "initial_anneal ext this saru"
  have l0: "loop_count ?a = 0" and t0: "t_current ?a = m_t_initial this"
    by (simp_all add: initial_anneal_def Let_def split: prod.splits)
  have cnt: "loop_count ((anneal_step ext this ^^ n) a) = loop_count a + n" for n a
    by (induction n) (simp_all add: anneal_step_loop_count)
  from anneal_loop_iterations [of ?a ext this] obtain n where n:
    "loop_count ?a + n \<le> max (loop_count ?a) 10000"
    "anneal_loop ext this ?a = (anneal_step ext this ^^ n) ?a"
    "\<forall>m<n. t_current ((anneal_step ext this ^^ m) ?a) > m_t_final this"
    "loop_count ?a + n \<ge> 10000 \<or> t_current ((anneal_step ext this ^^ n) ?a) \<le> m_t_final this"
    "\<exists>k\<le>n. t_current ((anneal_step ext this ^^ n) ?a) = t_current ?a * m_scale this ^ k"
    by blast
  show ?thesis
    apply (rule exI [of _ n])
    using n l0 t0 cnt [of n ?a] by (auto simp: replicate_body_def)
qed

theorem annealing_terminates_witness:
  "loop_count (replicate_body sample_externals sample_cubatic []) = 1
   \<and> t_current (replicate_body sample_externals sample_cubatic []) = 1 / 4
   \<and> replicate_body sample_externals sample_cubatic []
       = anneal_step sample_externals sample_cubatic
           (initial_anneal sample_externals sample_cubatic [])"
proof -
  let ?a = "initial_anneal sample_externals sample_cubatic []"
  let ?f = "anneal_step sample_externals sample_cubatic"
  from annealing_terminates [of sample_externals sample_cubatic "[]"] obtain n where n:
    "replicate_body sample_externals sample_cubatic [] = (?f ^^ n) ?a"
    "loop_count (replicate_body sample_externals sample_cubatic []) = n"
    "\<forall>m<n. t_current ((?f ^^ m) ?a) > m_t_final sample_cubatic"
    "n = 10000 \<or> t_current (replicate_body sample_externals sample_cubatic []) \<le> m_t_final sample_cubatic"
    by blast
  have t0: "t_current ?a = 1"
    by (simp add: sample_initial sample_cubatic_fields)
  have "n \<noteq> 0"
  proof
    assume "n = 0"
    then have "t_current (replicate_body sample_externals sample_cubatic []) = 1"
      using n(1) t0 by simp
    then show False using n(4) \<open>n = 0\<close> by (simp add: sample_cubatic_fields)
  qed
  moreover have "n < 2"
  proof (rule ccontr)
    assume "\<not> n < 2"
    then have "t_current ((?f ^^ 1) ?a) > m_t_final sample_cubatic"
      using n(3) by (metis not_less one_less_numeral_iff semiring_norm(76) less_le_trans)
    then show False
      by (simp add: sample_step_t_current sample_cubatic_fields)
  qed
  ultimately have "n = 1" by simp
  then show ?thesis using n(1,2) sample_step_t_current by simp
qed

text \<open>
  C6. One pass of the annealing loop. The proposal is the product of a random
  quaternion of angle multiplier 0.1 with the current orientation. If its order parameter
  exceeds the current one, the tensor, the orientation and the order parameter become
  those of the proposal and the temperature is cooled. If not, a further number is drawn
  with \<open>s<float>(0, 1)\<close>; when \<open>exp(-(current - proposed) / temperature)\<close> is at least that
  number the proposal is accepted in the same way, and otherwise tensor, orientation,
  order parameter and temperature stay as they were.
\<close>

theorem metropolis_step:
  "(let (dq, saru1) = calcRandomQuaternion ext (l_saru a) (1 / 10);
        proposal = quat_mul ext dq (cubatic_orientation a);
        proposal_tensor = calcCubaticTensor ext this proposal;
        proposal_order = calcCubaticOrderParameter this proposal_tensor;
        (test_value, saru2) = saru_s ext saru1 0 1;
        a' = anneal_step ext this a
    in (proposal_order > cubatic_order_parameter a \<longrightarrow>
          cubatic_tensor a' = proposal_tensor \<and> cubatic_orientation a' = proposal \<and>
          cubatic_order_parameter a' = proposal_order \<and>
          t_current a' = t_current a * m_scale this \<and> l_saru a' = saru1)
     \<and> (\<not> proposal_order > cubatic_order_parameter a \<and>
        exp (- (cubatic_order_parameter a - proposal_order) / t_current a) \<ge> test_value \<longrightarrow>
          cubatic_tensor a' = proposal_tensor \<and> cubatic_orientation a' = proposal \<and>
          cubatic_order_parameter a' = proposal_order \<and>
          t_current a' = t_current a * m_scale this \<and> l_saru a' = saru2)
     \<and> (\<not> proposal_order > cubatic_order_parameter a \<and>
        \<not> exp (- (cubatic_order_parameter a - proposal_order) / t_current a) \<ge> test_value \<longrightarrow>
          cubatic_tensor a' = cubatic_tensor a \<and> cubatic_orientation a' = cubatic_orientation a \<and>
          cubatic_order_parameter a' = cubatic_order_parameter a \<and>
          t_current a' = t_current a \<and> l_saru a' = saru2)
     \<and> loop_count a' = loop_count a + 1)"
  by (simp add: anneal_step_def Let_def split: prod.splits)

theorem metropolis_step_witness:
  "cubatic_order_parameter
     (anneal_step sample_externals sample_cubatic (sample_anneal 2 [0, 0, 0, 3 / 4])) = 2
   \<and> t_current
       (anneal_step sample_externals sample_cubatic (sample_anneal 2 [0, 0, 0, 3 / 4])) = 1
   \<and> cubatic_orientation
       (anneal_step sample_externals sample_cubatic (sample_anneal 2 [])) = Quat 1 (Vec3 0 0 0)
   \<and> t_current (anneal_step sample_externals sample_cubatic (sample_anneal 2 [])) = 1 / 4
   \<and> cubatic_order_parameter
       (anneal_step sample_externals
          (sample_cubatic\<lparr> m_global_tensor :=
             calcCubaticTensor sample_externals sample_cubatic (Quat 1 (Vec3 0 0 0)) \<rparr>)
          (sample_anneal 0 [])) = 1"
proof -
  let ?T = "calcCubaticTensor sample_externals sample_cubatic (Quat 1 (Vec3 0 0 0))"
  have le: "calcCubaticOrderParameter sample_cubatic ?T \<le> 1"
    by (rule order_parameter_le_1)
  have rejected:
    "cubatic_order_parameter
       (anneal_step sample_externals sample_cubatic (sample_anneal 2 [0, 0, 0, 3 / 4])) = 2
     \<and> t_current
       (anneal_step sample_externals sample_cubatic (sample_anneal 2 [0, 0, 0, 3 / 4])) = 1"
    using metropolis_step [of sample_externals "sample_anneal 2 [0, 0, 0, 3 / 4]" sample_cubatic]
      le exp_minus_bound [OF le]
    by (simp add: sample_anneal_def sample_quaternion_1 sample_quat_mul_1 sample_saru_s_cons
        Let_def not_le)
  have accepted:
    "cubatic_orientation
       (anneal_step sample_externals sample_cubatic (sample_anneal 2 [])) = Quat 1 (Vec3 0 0 0)
     \<and> t_current (anneal_step sample_externals sample_cubatic (sample_anneal 2 [])) = 1 / 4"
    using metropolis_step [of sample_externals "sample_anneal 2 []" sample_cubatic] le
    by (simp add: sample_anneal_def sample_quaternion_0 sample_quat_mul_1 sample_saru_s_nil
        sample_cubatic_fields Let_def)
  have improved:
    "cubatic_order_parameter
       (anneal_step sample_externals (sample_cubatic\<lparr> m_global_tensor := ?T \<rparr>)
          (sample_anneal 0 [])) = 1"
    using metropolis_step [of sample_externals "sample_anneal 0 []"
        "sample_cubatic\<lparr> m_global_tensor := ?T \<rparr>"]
    by (simp add: sample_anneal_def sample_quaternion_0 sample_quat_mul_1 sample_saru_s_nil
        calcCubaticTensor_global calcCubaticOrderParameter_def dot_minus_self Let_def)
  from rejected accepted improved show ?thesis by simp
qed


text \<open>
  C8. For every query point and every \<open>k\<close>, the plain k-nearest-neighbour entry point
  \<open>AABBQuery::query(point, k)\<close> fails at once with the runtime error that asks for
  the signature with radius and scale guesses; it returns no iterator and fills in
  no default for the missing parameters.
\<close>

theorem query_always_throws:
  "(query this point k :: exn + 'iter) =
     Inl (runtime_error ''AABBQuery k-nearest-neighbor queries must use the function signature that provides rmax and scale guesses.'')
   \<and> (\<nexists>it. (query this point k :: exn + 'iter) = Inr it)"
  by (simp add: query_def)

text \<open>
  C9, as the claim has it: each entry of the buffer is the input point of its id
  translated by a lattice vector other than zero. In the 2D box of the samples the point
  \<open>(4.5, 0, 1)\<close> gives the entry \<open>(-5.5, 0, 0)\<close>, whose third coordinate is set to 0 by
  line 64, and no lattice translation takes the third coordinate from 1 to 0.
\<close>

theorem buffer_not_lattice_image_2d:
  "\<not> (\<exists>i j k. (i \<noteq> 0 \<or> j \<noteq> 0 \<or> k \<noteq> 0) \<and>
         fst (VoronoiBuffer_compute sample_box_2d [Vec3 (9 / 2) 0 1] 1 1) ! 0
           = lattice_image sample_box_2d
               ([Vec3 (9 / 2) 0 1] ! (snd (VoronoiBuffer_compute sample_box_2d [Vec3 (9 / 2) 0 1] 1 1) ! 0))
               i j k)"
proof
  assume "\<exists>i j k. (i \<noteq> 0 \<or> j \<noteq> 0 \<or> k \<noteq> 0) \<and>
         fst (VoronoiBuffer_compute sample_box_2d [Vec3 (9 / 2) 0 1] 1 1) ! 0
           = lattice_image sample_box_2d
               ([Vec3 (9 / 2) 0 1] ! (snd (VoronoiBuffer_compute sample_box_2d [Vec3 (9 / 2) 0 1] 1 1) ! 0))
               i j k"
  then obtain k :: int where "(0::real) = 1 + of_int k * 10"
    unfolding sample_run_2d by (auto simp: lattice_image_def sample_box_2d_def)
  then have "(of_int (1 + k * 10) :: real) = of_int 0" by simp
  then have "1 + k * 10 = 0" by (simp only: of_int_eq_iff)
  then show False by presburger
qed

text \<open>
  C9, amended. After \<open>compute\<close> with \<open>Np\<close> points the two output vectors have the same
  length, every id is below \<open>Np\<close>, and every entry is the point of its id, with its third
  coordinate replaced by 0 when the box is 2D, translated by \<open>i a\<^sub>1 + j a\<^sub>2 + k a\<^sub>3\<close> for
  whole numbers \<open>i, j, k\<close> that are not all zero, with \<open>k = 0\<close> when the box is 2D.
\<close>

theorem buffer_entries_valid:
  "length (fst (VoronoiBuffer_compute box points Np buff))
     = length (snd (VoronoiBuffer_compute box points Np buff))
   \<and> (\<forall>n < length (snd (VoronoiBuffer_compute box points Np buff)).
        snd (VoronoiBuffer_compute box points Np buff) ! n < Np
        \<and> (\<exists>i j k. (i \<noteq> 0 \<or> j \<noteq> 0 \<or> k \<noteq> 0) \<and> (is2D box \<longrightarrow> k = 0) \<and>
              fst (VoronoiBuffer_compute box points Np buff) ! n
                = lattice_image box
                    (in_plane box (points ! (snd (VoronoiBuffer_compute box points Np buff) ! n)))
                    i j k))"
  using buffer_entries [of box points Np buff]
  by (auto simp: list_all2_conv_all_nth buffer_entry_def)

theorem buffer_entries_valid_witness:
  "snd (VoronoiBuffer_compute sample_box_3d [Vec3 (9 / 2) 0 1] 1 1) = [0]
   \<and> (0::nat) < 1
   \<and> (\<exists>i j k. (i \<noteq> 0 \<or> j \<noteq> 0 \<or> k \<noteq> 0) \<and> (is2D sample_box_3d \<longrightarrow> k = 0) \<and>
         Vec3 (- 11 / 2) 0 1 = lattice_image sample_box_3d (in_plane sample_box_3d (Vec3 (9 / 2) 0 1)) i j k)
   \<and> snd (VoronoiBuffer_compute sample_box_2d [Vec3 (9 / 2) 0 1] 1 1) = [0]
   \<and> (\<exists>i j k. (i \<noteq> 0 \<or> j \<noteq> 0 \<or> k \<noteq> 0) \<and> (is2D sample_box_2d \<longrightarrow> k = 0) \<and>
         Vec3 (- 11 / 2) 0 0 = lattice_image sample_box_2d (in_plane sample_box_2d (Vec3 (9 / 2) 0 1)) i j k)"
  using buffer_entries_valid [of sample_box_3d "[Vec3 (9 / 2) 0 1]" 1 1]
    buffer_entries_valid [of sample_box_2d "[Vec3 (9 / 2) 0 1]" 1 1]
  unfolding sample_run_3d sample_run_2d by simp

text \<open>
  C10. When the box is 2D, every entry of the buffer has third coordinate 0, and its
  first two coordinates are those of the point of its id moved by \<open>i a\<^sub>1 + j a\<^sub>2\<close> with
  \<open>(i, j) \<noteq> (0, 0)\<close>: no translation along the third edge vector takes part.
\<close>

theorem buffer_2d_in_plane:
  "is2D box \<Longrightarrow>
   \<forall>n < length (fst (VoronoiBuffer_compute box points Np buff)).
     vz (fst (VoronoiBuffer_compute box points Np buff) ! n) = 0
     \<and> (\<exists>i j. (i \<noteq> 0 \<or> j \<noteq> 0) \<and>
          vx (fst (VoronoiBuffer_compute box points Np buff) ! n)
            = vx (points ! (snd (VoronoiBuffer_compute box points Np buff) ! n))
                + of_int i * getLx box + of_int j * getLy box * getTiltFactorXY box
          \<and> vy (fst (VoronoiBuffer_compute box points Np buff) ! n)
            = vy (points ! (snd (VoronoiBuffer_compute box points Np buff) ! n))
                + of_int j * getLy box)"
  using buffer_entries [of box points Np buff]
  by (fastforce simp: list_all2_conv_all_nth buffer_entry_def lattice_image_def in_plane_def)

theorem buffer_2d_in_plane_witness:
  "is2D sample_box_2d
   \<and> fst (VoronoiBuffer_compute sample_box_2d [Vec3 (9 / 2) 0 1] 1 1) = [Vec3 (- 11 / 2) 0 0]
   \<and> (\<exists>i j. (i \<noteq> 0 \<or> j \<noteq> 0) \<and>
         (- 11 / 2 :: real) = 9 / 2 + of_int i * getLx sample_box_2d
                                + of_int j * getLy sample_box_2d * getTiltFactorXY sample_box_2d
         \<and> (0 :: real) = 0 + of_int j * getLy sample_box_2d)"
proof -
  have h: "is2D sample_box_2d" by (simp add: sample_box_2d_def)
  show ?thesis
    using h buffer_2d_in_plane [OF h, of "[Vec3 (9 / 2) 0 1]" 1 1]
    unfolding sample_run_2d by simp
qed

end
